theory Spec2Isabelle
  imports Main
begin

section \<open>Python values used by the scraper\<close>

text \<open>
  A Python \<open>str\<close> is a sequence of code points. The model takes \<open>string\<close> with one
  \<open>char\<close> per code point, which covers the code points below 256 (Latin-1): the pound
  sign of the price texts is the single character \<open>0xA3\<close>. In that range the decimal
  digits known to \<open>\d\<close>, \<open>int\<close> and \<open>float\<close> are \<open>0\<close> to \<open>9\<close>, and the white space
  removed by \<open>str.strip()\<close> is the twelve code points of \<open>es_espacio\<close>.
\<close>

datatype error = AttributeError | TypeError | KeyError | ValueError | IndexError | OverflowError

definition es_digito :: "char \<Rightarrow> bool" where
  "es_digito c = (c \<in> set ''0123456789'')"

definition es_espacio :: "char \<Rightarrow> bool" where
  "es_espacio c = ((of_char c :: nat) \<in> {9, 10, 11, 12, 13, 28, 29, 30, 31, 32, 133, 160})"

definition valor_digito :: "char \<Rightarrow> nat" where
  "valor_digito c = of_char c - 48"

text \<open>The number written by a string of decimal digits, most significant digit first.\<close>

definition numero :: "string \<Rightarrow> nat" where
  "numero ds = foldl (\<lambda>a c. 10 * a + valor_digito c) 0 ds"

text \<open>\<open>s.strip()\<close>: white space removed at both ends.\<close>

definition strip :: "string \<Rightarrow> string" where
  "strip s = rev (dropWhile es_espacio (rev (dropWhile es_espacio s)))"

text \<open>
  \<open>int\<close> and \<open>float\<close> drop white space at both ends too, but a smaller set: they
  do not take the four separators \<open>0x1C\<close> to \<open>0x1F\<close> for white space.
\<close>

definition es_espacio_numerico :: "char \<Rightarrow> bool" where
  "es_espacio_numerico c = ((of_char c :: nat) \<in> {9, 10, 11, 12, 13, 32, 133, 160})"

definition strip_numerico :: "string \<Rightarrow> string" where
  "strip_numerico s = rev (dropWhile es_espacio_numerico (rev (dropWhile es_espacio_numerico s)))"

text \<open>
  The numeric constructors accept single underscores between digits. \<open>quitar_guiones p s\<close>
  removes them from \<open>s\<close>, where \<open>p\<close> is the character before \<open>s\<close>, and is \<open>None\<close> when an
  underscore does not stand between two digits.
\<close>

fun quitar_guiones :: "char \<Rightarrow> string \<Rightarrow> string option" where
  "quitar_guiones p [] = (if p = CHR ''_'' then None else Some [])"
| "quitar_guiones p (c # cs) =
     (if c = CHR ''_'' then (if es_digito p then quitar_guiones c cs else None)
      else if p = CHR ''_'' \<and> \<not> es_digito c then None
      else map_option ((#) c) (quitar_guiones c cs))"

text \<open>An optional sign: whether it is a minus, and the rest.\<close>

fun signo :: "string \<Rightarrow> bool \<times> string" where
  "signo [] = (False, [])"
| "signo (c # cs) =
     (if c = CHR ''-'' then (True, cs) else if c = CHR ''+'' then (False, cs) else (False, c # cs))"

text \<open>
  \<open>int(s)\<close> for a \<open>str\<close> in base ten: white space around, an optional sign, decimal
  digits with single underscores between them; \<open>ValueError\<close> otherwise. Python's
  integers are unbounded. (The interpreter's configurable limit on the number of digits
  of a conversion is a setting of the host, not part of the model.)
\<close>

definition int_de_str :: "string \<Rightarrow> error + int" where
  "int_de_str s =
     (case signo (strip_numerico s) of (neg, r) \<Rightarrow>
        (case quitar_guiones (CHR 0x00) r of
           None \<Rightarrow> Inl ValueError
         | Some ds \<Rightarrow>
             if ds \<noteq> [] \<and> list_all es_digito ds
             then Inr (if neg then - int (numero ds) else int (numero ds))
             else Inl ValueError))"

section \<open>Field normalizers\<close>

subsection \<open>parsear\_stock\<close>

text \<open>
  \<open>re.search(r"(\d+)", texto)\<close>: the leftmost position where a digit stands, and from
  there the longest run of digits (the quantifier is greedy); \<open>None\<close> where the text has
  no digit. The result is group 1 of the match.
\<close>

fun re_search_digitos :: "string \<Rightarrow> string option" where
  "re_search_digitos [] = None"
| "re_search_digitos (c # cs) =
     (if es_digito c then Some (takeWhile es_digito (c # cs)) else re_search_digitos cs)"

definition parsear_stock :: "string \<Rightarrow> error + int option" where
  "parsear_stock texto_stock =
     (case re_search_digitos texto_stock of
        None \<Rightarrow> Inr None
      | Some grupo \<Rightarrow>
          (case int_de_str grupo of Inl e \<Rightarrow> Inl e | Inr n \<Rightarrow> Inr (Some n)))"

subsection \<open>parsear\_valoracion\<close>

definition MAPA_VALORACIONES :: "(string \<times> int) list" where
  "MAPA_VALORACIONES = [(''One'', 1), (''Two'', 2), (''Three'', 3), (''Four'', 4), (''Five'', 5)]"

text \<open>
  A node of the parsed document: a tag with its name, the tokens of its \<open>class\<close>
  attribute (the query library keeps that attribute as a list, empty when the tag has
  none), its other attributes (text valued: a dictionary, read with \<open>map_of\<close>) and its
  children in document order; or a piece of text.
\<close>

datatype nodo = Etiqueta string "string list" "(string \<times> string) list" "nodo list" | Texto string

text \<open>
  The loop over the class tokens: the first one that is a key of the table decides.
\<close>

fun primera_valoracion :: "string list \<Rightarrow> int option" where
  "primera_valoracion [] = None"
| "primera_valoracion (clase # clases) =
     (case map_of MAPA_VALORACIONES clase of
        Some v \<Rightarrow> Some v
      | None \<Rightarrow> primera_valoracion clases)"

text \<open>
  The body of the \<open>try\<close>: \<open>etiqueta_html.get("class", [])\<close> raises \<open>AttributeError\<close>
  when the argument is \<open>None\<close> (no element matched) or a piece of text.
\<close>

fun cuerpo_valoracion :: "nodo option \<Rightarrow> error + int option" where
  "cuerpo_valoracion None = Inl AttributeError"
| "cuerpo_valoracion (Some (Texto s)) = Inl AttributeError"
| "cuerpo_valoracion (Some (Etiqueta n clases ats hs)) = Inr (primera_valoracion clases)"

text \<open>\<open>except Exception: pass\<close>, then \<open>return None\<close>.\<close>

definition parsear_valoracion :: "nodo option \<Rightarrow> error + int option" where
  "parsear_valoracion etiqueta_html =
     (case cuerpo_valoracion etiqueta_html of Inl e \<Rightarrow> Inr None | Inr v \<Rightarrow> Inr v)"

subsection \<open>parsear\_precio\<close>

text \<open>
  The result of \<open>float(s)\<close>. \<open>Finito neg m e\<close> is the decimal number
  \<open>(if neg then -1 else 1) * m * 10 ^ e\<close> that the text denotes; the interpreter
  returns the binary64 value nearest to it (ties to even). The rounding is not
  computed here; what is used of the value below is the decimal itself and its
  comparison with zero, which \<open>no_negativo\<close> decides as the rounded value does.
\<close>

datatype pyfloat = Finito bool nat int | Infinito bool | NaN


text \<open>
  The words \<open>inf\<close>, \<open>infinity\<close> and \<open>nan\<close> are matched without regard to case.
  Lowering the six capitals that occur in them is enough: no other character becomes
  one of their letters.
\<close>

definition minuscula :: "char \<Rightarrow> char" where
  "minuscula c =
     (if c = CHR ''I'' then CHR ''i'' else if c = CHR ''N'' then CHR ''n''
      else if c = CHR ''F'' then CHR ''f'' else if c = CHR ''T'' then CHR ''t''
      else if c = CHR ''Y'' then CHR ''y'' else if c = CHR ''A'' then CHR ''a'' else c)"

text \<open>The exponent part, after the mantissa: empty, or \<open>e\<close>, a sign and digits.\<close>

definition exponente :: "string \<Rightarrow> int option" where
  "exponente r =
     (case r of
        [] \<Rightarrow> Some 0
      | c # q \<Rightarrow>
          if c = CHR ''e'' \<or> c = CHR ''E'' then
            (case signo q of (eneg, ds) \<Rightarrow>
               if ds \<noteq> [] \<and> list_all es_digito ds
               then Some (if eneg then - int (numero ds) else int (numero ds))
               else None)
          else None)"

text \<open>
  A decimal literal without its sign: digits, an optional point and digits, with at
  least one digit in all, then the exponent part.
\<close>

definition decimal :: "bool \<Rightarrow> string \<Rightarrow> pyfloat option" where
  "decimal neg r =
     (let ent = takeWhile es_digito r; r1 = dropWhile es_digito r;
          frac = (case r1 of [] \<Rightarrow> [] | c # q \<Rightarrow> if c = CHR ''.'' then takeWhile es_digito q else []);
          r2 = (case r1 of [] \<Rightarrow> [] | c # q \<Rightarrow> if c = CHR ''.'' then dropWhile es_digito q else r1)
      in if ent = [] \<and> frac = [] then None
         else (case exponente r2 of
                 None \<Rightarrow> None
               | Some x \<Rightarrow> Some (Finito neg (numero (ent @ frac)) (x - int (length frac)))))"

text \<open>
  \<open>float(s)\<close> for a \<open>str\<close>: white space around is dropped, underscores are checked and
  removed, then a sign and one of the three words or a decimal literal must make up
  the whole text; \<open>None\<close> stands for \<open>ValueError\<close>.
\<close>

definition float_de_str :: "string \<Rightarrow> pyfloat option" where
  "float_de_str s =
     (case quitar_guiones (CHR 0x00) (strip_numerico s) of
        None \<Rightarrow> None
      | Some t \<Rightarrow>
          (case signo t of (neg, r) \<Rightarrow>
             if map minuscula r = ''inf'' \<or> map minuscula r = ''infinity'' then Some (Infinito neg)
             else if map minuscula r = ''nan'' then Some NaN
             else decimal neg r))"

text \<open>
  The text with the pound sign replaced by the empty text, stripped, and given to
  \<open>float\<close>. \<open>str.replace\<close> removes every occurrence of the pound sign (the
  character \<open>0xA3\<close>), wherever it stands.
\<close>

definition parsear_precio :: "string \<Rightarrow> error + pyfloat" where
  "parsear_precio texto_precio =
     (case float_de_str (strip (filter (\<lambda>c. c \<noteq> CHR 0xA3) texto_precio)) of
        None \<Rightarrow> Inl ValueError
      | Some x \<Rightarrow> Inr x)"

section \<open>The parsed document and its queries\<close>

text \<open>
  What the scraper asks of the query library, on the tree above. The descendants of a
  node come in document order, the node itself left out.
\<close>

fun descendientes :: "nodo \<Rightarrow> nodo list" where
  "descendientes (Texto s) = []"
| "descendientes (Etiqueta n cl ats hs) = concat (map (\<lambda>h. h # descendientes h) hs)"

fun tiene_nombre :: "string \<Rightarrow> nodo \<Rightarrow> bool" where
  "tiene_nombre n (Etiqueta m cl ats hs) = (m = n)"
| "tiene_nombre n (Texto s) = False"

fun tiene_clase :: "string \<Rightarrow> nodo \<Rightarrow> bool" where
  "tiene_clase c (Etiqueta m cl ats hs) = (c \<in> set cl)"
| "tiene_clase c (Texto s) = False"

text \<open>\<open>x.h3\<close>, \<open>x.a\<close>: the first descendant tag of that name, or \<open>None\<close>.\<close>

definition buscar :: "string \<Rightarrow> nodo \<Rightarrow> nodo option" where
  "buscar n x = List.find (tiene_nombre n) (descendientes x)"

text \<open>\<open>x.select_one(".c")\<close>: the first descendant tag with the class token, or \<open>None\<close>.\<close>

definition select_one_clase :: "string \<Rightarrow> nodo \<Rightarrow> nodo option" where
  "select_one_clase c x = List.find (tiene_clase c) (descendientes x)"

text \<open>\<open>soup.select("article.product_pod")\<close>: every such descendant, in document order.\<close>

definition select_articulos :: "nodo \<Rightarrow> nodo list" where
  "select_articulos soup =
     filter (\<lambda>d. tiene_nombre ''article'' d \<and> tiene_clase ''product_pod'' d) (descendientes soup)"

text \<open>
  \<open>soup.select_one("li.next a")\<close>: the first \<open>a\<close> tag, in document order, below an
  \<open>li\<close> tag with the class token \<open>next\<close>. \<open>dentro\<close> says whether such an \<open>li\<close> is
  among the ancestors of the node at hand.
\<close>

fun select_li_next_a :: "bool \<Rightarrow> nodo \<Rightarrow> nodo list" where
  "select_li_next_a dentro (Texto s) = []"
| "select_li_next_a dentro (Etiqueta n cl ats hs) =
     concat (map (\<lambda>h. (if (dentro \<or> (n = ''li'' \<and> ''next'' \<in> set cl)) \<and> tiene_nombre ''a'' h
                         then [h] else [])
                       @ select_li_next_a (dentro \<or> (n = ''li'' \<and> ''next'' \<in> set cl)) h) hs)"

definition select_one_li_next_a :: "nodo \<Rightarrow> nodo option" where
  "select_one_li_next_a soup =
     (case select_li_next_a False soup of [] \<Rightarrow> None | a # resto \<Rightarrow> Some a)"

text \<open>\<open>x.text\<close>: the pieces of text below the node, joined in document order.\<close>

fun texto :: "nodo \<Rightarrow> string" where
  "texto (Texto s) = s"
| "texto (Etiqueta n cl ats hs) = concat (map texto hs)"

text \<open>\<open>x[clave]\<close> on a tag: the attribute, or \<open>KeyError\<close>.\<close>

fun atributo :: "nodo \<Rightarrow> string \<Rightarrow> error + string" where
  "atributo (Etiqueta n cl ats hs) clave =
     (case map_of ats clave of None \<Rightarrow> Inl KeyError | Some v \<Rightarrow> Inr v)"
| "atributo (Texto s) clave = Inl TypeError"

section \<open>scrapear\_pagina\<close>

record producto =
  titulo :: string
  precio :: pyfloat
  valoracion :: "int option"
  cantidad_stock :: "int option"
  texto_stock :: string

text \<open>
  The statements of the \<open>try\<close> body for one product node, each failure as the
  exception it is. The title: \<open>articulo.h3\<close> is \<open>None\<close> and \<open>.a\<close> is asked of it
  (\<open>AttributeError\<close>); \<open>articulo.h3.a\<close> is \<open>None\<close> and is subscripted
  (\<open>TypeError\<close>); the anchor has no \<open>title\<close> (\<open>KeyError\<close>).
\<close>

definition leer_titulo :: "nodo \<Rightarrow> error + string" where
  "leer_titulo articulo =
     (case buscar ''h3'' articulo of
        None \<Rightarrow> Inl AttributeError
      | Some h3 \<Rightarrow>
          (case buscar ''a'' h3 of
             None \<Rightarrow> Inl TypeError
           | Some a \<Rightarrow> atributo a ''title''))"

text \<open>
  The price: no element of class \<open>price_color\<close>, so \<open>.text\<close> is asked of \<open>None\<close>
  (\<open>AttributeError\<close>); or its text is not a number (\<open>ValueError\<close>).
\<close>

definition leer_precio :: "nodo \<Rightarrow> error + pyfloat" where
  "leer_precio articulo =
     (case select_one_clase ''price_color'' articulo of
        None \<Rightarrow> Inl AttributeError
      | Some pc \<Rightarrow> parsear_precio (texto pc))"

definition leer_valoracion :: "nodo \<Rightarrow> error + int option" where
  "leer_valoracion articulo = parsear_valoracion (select_one_clase ''star-rating'' articulo)"

text \<open>The availability text, stripped: \<open>AttributeError\<close> when no element has the class.\<close>

definition leer_texto_stock :: "nodo \<Rightarrow> error + string" where
  "leer_texto_stock articulo =
     (case select_one_clase ''availability'' articulo of
        None \<Rightarrow> Inl AttributeError
      | Some av \<Rightarrow> Inr (strip (texto av)))"

text \<open>The whole body, in the order of the source: the first failure ends it.\<close>

definition cuerpo_articulo :: "nodo \<Rightarrow> error + producto" where
  "cuerpo_articulo articulo =
     (case leer_titulo articulo of
        Inl e \<Rightarrow> Inl e
      | Inr t \<Rightarrow>
     (case leer_precio articulo of
        Inl e \<Rightarrow> Inl e
      | Inr p \<Rightarrow>
     (case leer_valoracion articulo of
        Inl e \<Rightarrow> Inl e
      | Inr v \<Rightarrow>
     (case leer_texto_stock articulo of
        Inl e \<Rightarrow> Inl e
      | Inr ts \<Rightarrow>
     (case parsear_stock ts of
        Inl e \<Rightarrow> Inl e
      | Inr c \<Rightarrow>
          Inr \<lparr>titulo = t, precio = p, valoracion = v, cantidad_stock = c,
               texto_stock = ts\<rparr>)))))"

text \<open>
  The \<open>for\<close> loop over the product nodes: a node whose body raises is skipped by the
  \<open>except Exception\<close> (which logs a warning), the others are appended in turn.
\<close>

fun recorrer_articulos :: "nodo list \<Rightarrow> producto list \<Rightarrow> producto list" where
  "recorrer_articulos [] productos = productos"
| "recorrer_articulos (articulo # articulos) productos =
     (case cuerpo_articulo articulo of
        Inl e \<Rightarrow> recorrer_articulos articulos productos
      | Inr p \<Rightarrow> recorrer_articulos articulos (productos @ [p]))"

definition extraer :: "nodo \<Rightarrow> producto list" where
  "extraer soup = recorrer_articulos (select_articulos soup) []"

text \<open>
  The network and the HTML parser are outside the program. \<open>red n url\<close> is what the
  \<open>n\<close>-th request of the run returns when it asks for \<open>url\<close>: the parsed document, or
  \<open>None\<close> for a \<open>requests.RequestException\<close> (which \<open>obtener_soup\<close> logs and turns
  into \<open>None\<close>). The number of requests made so far is the only state.
\<close>

type_synonym red = "nat \<Rightarrow> string \<Rightarrow> nodo option"

definition obtener_soup :: "red \<Rightarrow> nat \<Rightarrow> string \<Rightarrow> nodo option \<times> nat" where
  "obtener_soup red n url = (red n url, Suc n)"

definition scrapear_pagina :: "red \<Rightarrow> nat \<Rightarrow> string \<Rightarrow> producto list \<times> nat" where
  "scrapear_pagina red n url =
     (case obtener_soup red n url of
        (None, n') \<Rightarrow> ([], n')
      | (Some soup, n') \<Rightarrow> (extraer soup, n'))"

section \<open>obtener\_todos\_los\_productos\<close>

definition URL_BASE :: string where
  "URL_BASE = ''http://books.toscrape.com/''"

definition URL_INICIAL :: string where
  "URL_INICIAL = URL_BASE @ ''catalogue/page-1.html''"

text \<open>
  The link to the next page, read from the second answer of a turn: the cursor becomes
  \<open>None\<close> when the request failed or the document has no \<open>li.next a\<close>, and the
  address under \<open>catalogue/\<close> otherwise. A link without \<open>href\<close> raises
  \<open>KeyError\<close>, which nothing catches.
\<close>

definition siguiente_url :: "nodo option \<Rightarrow> error + string option" where
  "siguiente_url soup =
     (case soup of
        None \<Rightarrow> Inr None
      | Some d \<Rightarrow>
          (case select_one_li_next_a d of
             None \<Rightarrow> Inr None
           | Some a \<Rightarrow>
               (case atributo a ''href'' of
                  Inl e \<Rightarrow> Inl e
                | Inr siguiente_pagina \<Rightarrow> Inr (Some (URL_BASE @ ''catalogue/'' @ siguiente_pagina)))))"

text \<open>
  The \<open>while\<close> loop, which nothing bounds: the result is \<open>None\<close> when it runs for
  ever. The cursor is \<open>None\<close> or a text, and the empty text is false as well. One turn
  asks for the page twice, first inside \<open>scrapear_pagina\<close> and then for the link.
  The pause between pages is not modelled.
\<close>

partial_function (option) bucle ::
  "red \<Rightarrow> nat \<Rightarrow> string option \<Rightarrow> producto list \<Rightarrow> ((error + producto list) \<times> nat) option" where
  "bucle red n url_actual productos_totales =
     (case url_actual of
        None \<Rightarrow> Some (Inr productos_totales, n)
      | Some url \<Rightarrow>
          if url = [] then Some (Inr productos_totales, n)
          else
            (case scrapear_pagina red n url of (productos_pagina, n1) \<Rightarrow>
            (case obtener_soup red n1 url of (soup, n2) \<Rightarrow>
            (case siguiente_url soup of
               Inl e \<Rightarrow> Some (Inl e, n2)
             | Inr siguiente \<Rightarrow> bucle red n2 siguiente (productos_totales @ productos_pagina)))))"

definition obtener_todos_los_productos :: "red \<Rightarrow> ((error + producto list) \<times> nat) option" where
  "obtener_todos_los_productos red = bucle red 0 (Some URL_INICIAL) []"

declare bucle.simps [code]

section \<open>Export and entry point\<close>

text \<open>
  The three outputs as the program leaves them: each file absent (\<open>None\<close>) or with its
  content. A CSV file is its lines; the JSON file is the array it holds; the database
  is the rows of the table \<open>productos\<close> (their keys left out), \<open>None\<close> while the
  table does not exist. Failures of the file system are not modelled.
\<close>

datatype linea_csv = Cabecera "string list" | Fila producto

record sistema =
  productos_csv :: "linea_csv list option"
  productos_json :: "producto list option"
  productos_db :: "producto list option"

text \<open>
  \<open>guardar_csv\<close>: the file is opened for writing, which creates it empty, before
  \<open>datos[0]\<close> is read for the field names; on an empty list that read raises
  \<open>IndexError\<close>. The keys of a record's dictionary come in insertion order.
\<close>

definition guardar_csv :: "producto list \<Rightarrow> sistema \<Rightarrow> error option \<times> sistema" where
  "guardar_csv datos sis =
     (case datos of
        [] \<Rightarrow> (Some IndexError, sis\<lparr>productos_csv := Some []\<rparr>)
      | d # ds \<Rightarrow>
          (None, sis\<lparr>productos_csv :=
             Some (Cabecera [''titulo'', ''precio'', ''valoracion'', ''cantidad_stock'', ''texto_stock'']
                   # map Fila datos)\<rparr>))"

definition guardar_json :: "producto list \<Rightarrow> sistema \<Rightarrow> error option \<times> sistema" where
  "guardar_json datos sis = (None, sis\<lparr>productos_json := Some datos\<rparr>)"

text \<open>
  \<open>guardar_sqlite\<close>: the table is created if absent, then the rows are inserted and
  committed. The database stores integers in 64 bits: binding a larger one raises
  \<open>OverflowError\<close>, and then nothing is committed.
\<close>

definition cabe_en_int64 :: "int option \<Rightarrow> bool" where
  "cabe_en_int64 v = (case v of None \<Rightarrow> True | Some i \<Rightarrow> - (2 ^ 63) \<le> i \<and> i < 2 ^ 63)"

definition guardar_sqlite :: "producto list \<Rightarrow> sistema \<Rightarrow> error option \<times> sistema" where
  "guardar_sqlite datos sis =
     (let tabla = (case productos_db sis of None \<Rightarrow> [] | Some filas \<Rightarrow> filas)
      in if list_all (\<lambda>p. cabe_en_int64 (valoracion p) \<and> cabe_en_int64 (cantidad_stock p)) datos
         then (None, sis\<lparr>productos_db := Some (tabla @ datos)\<rparr>)
         else (Some OverflowError, sis\<lparr>productos_db := Some tabla\<rparr>))"

text \<open>
  The entry point: the crawl, then the three exports in turn; an exception ends the
  process where it is raised. \<open>None\<close> when the crawl does not return.
\<close>

definition principal :: "red \<Rightarrow> sistema \<Rightarrow> (error option \<times> sistema) option" where
  "principal red sis =
     (case obtener_todos_los_productos red of
        None \<Rightarrow> None
      | Some (r, n) \<Rightarrow>
          (case r of
             Inl e \<Rightarrow> Some (Some e, sis)
           | Inr productos \<Rightarrow>
               (case guardar_csv productos sis of (e1, s1) \<Rightarrow>
                  (case e1 of
                     Some e \<Rightarrow> Some (Some e, s1)
                   | None \<Rightarrow>
                       (case guardar_json productos s1 of (e2, s2) \<Rightarrow>
                          (case e2 of
                             Some e \<Rightarrow> Some (Some e, s2)
                           | None \<Rightarrow> Some (guardar_sqlite productos s2)))))))"

section \<open>A driver that asks for each page once\<close>

text \<open>
  The crawl driver as the specification words it, for a site that answers each address
  in one way: fetch the document at the cursor once; a failed fetch gives no records
  and no next link; otherwise extract the records, append them, and look the next link
  up in the same document. The counter is the number of requests.
\<close>

partial_function (option) conductor_referencia ::
  "(string \<Rightarrow> nodo option) \<Rightarrow> nat \<Rightarrow> string option \<Rightarrow> producto list
     \<Rightarrow> ((error + producto list) \<times> nat) option" where
  "conductor_referencia sitio k cursor acumulados =
     (case cursor of
        None \<Rightarrow> Some (Inr acumulados, k)
      | Some url \<Rightarrow>
          if url = [] then Some (Inr acumulados, k)
          else
            (case siguiente_url (sitio url) of
               Inl e \<Rightarrow> Some (Inl e, Suc k)
             | Inr siguiente \<Rightarrow>
                 conductor_referencia sitio (Suc k) siguiente
                   (acumulados @ (case sitio url of None \<Rightarrow> [] | Some d \<Rightarrow> extraer d))))"

declare conductor_referencia.simps [code]

section \<open>Example documents\<close>

text \<open>
  A product node as the catalogue writes it, with the title, the price text, the extra
  class tokens of the rating element and the availability text; and a page with
  product nodes and, if wanted, a link to the next page.
\<close>

definition articulo_ejemplo :: "string \<Rightarrow> string \<Rightarrow> string list \<Rightarrow> string \<Rightarrow> nodo" where
  "articulo_ejemplo t p cl st =
     Etiqueta ''article'' [''product_pod''] []
       [Etiqueta ''p'' (''star-rating'' # cl) [] [],
        Etiqueta ''h3'' [] [] [Etiqueta ''a'' [] [(''href'', ''libro.html''), (''title'', t)] [Texto ''libro'']],
        Etiqueta ''div'' [''product_price''] []
          [Etiqueta ''p'' [''price_color''] [] [Texto p],
           Etiqueta ''p'' [''instock'', ''availability''] [] [Texto st]]]"

definition pagina_ejemplo :: "nodo list \<Rightarrow> string option \<Rightarrow> nodo" where
  "pagina_ejemplo articulos siguiente =
     Etiqueta ''[document]'' [] []
       [Etiqueta ''html'' [] []
          [Etiqueta ''body'' [] []
             (articulos @
              (case siguiente of
                 None \<Rightarrow> []
               | Some h \<Rightarrow>
                   [Etiqueta ''ul'' [''pager''] []
                      [Etiqueta ''li'' [''next''] [] [Etiqueta ''a'' [] [(''href'', h)] [Texto ''next'']]]]))]]"

text \<open>
  A catalogue of two pages: two products on the first, which links to the second, and
  one product on the second, which links nowhere.
\<close>

definition pagina_uno :: nodo where
  "pagina_uno =
     pagina_ejemplo
       [articulo_ejemplo ''A'' (CHR 0xA3 # ''10.00'') [''Three''] ''In stock (5 available)'',
        articulo_ejemplo ''B'' (CHR 0xA3 # ''5.00'') [] ''Out of stock'']
       (Some ''page-2.html'')"

definition pagina_dos :: nodo where
  "pagina_dos =
     pagina_ejemplo [articulo_ejemplo ''C'' (CHR 0xA3 # ''1.50'') [''Five''] ''In stock (1 available)''] None"

definition URL_PAGINA_DOS :: string where
  "URL_PAGINA_DOS = URL_BASE @ ''catalogue/page-2.html''"

definition sitio_ejemplo :: "string \<Rightarrow> nodo option" where
  "sitio_ejemplo url =
     (if url = URL_INICIAL then Some pagina_uno
      else if url = URL_PAGINA_DOS then Some pagina_dos else None)"

section \<open>Properties of the field normalizers\<close>

















lemma primera_valoracion_find:
  "primera_valoracion cs =
     (case List.find (\<lambda>x. x \<in> set [''One'', ''Two'', ''Three'', ''Four'', ''Five'']) cs of
        None \<Rightarrow> None
      | Some c \<Rightarrow> Some (if c = ''One'' then 1 else if c = ''Two'' then 2 else if c = ''Three'' then 3
                        else if c = ''Four'' then 4 else 5))"
  by (induction cs) (auto simp: MAPA_VALORACIONES_def)

text \<open>
  Claim C9. \<open>parsear_valoracion\<close> never raises. On a tag it returns the number, from
  1 to 5, of the first class token in order that is one of the five words, compared
  letter for letter; \<open>None\<close> when no token is one of them, and \<open>None\<close> when the
  argument is absent or is not a tag.
\<close>

theorem parsear_valoracion_primera_marca:
  "(\<exists>v. parsear_valoracion e = Inr v)
   \<and> (List.find (\<lambda>x. x \<in> set [''One'', ''Two'', ''Three'', ''Four'', ''Five'']) clases = Some c \<longrightarrow>
        parsear_valoracion (Some (Etiqueta n clases ats hs)) =
          Inr (Some (if c = ''One'' then 1 else if c = ''Two'' then 2 else if c = ''Three'' then 3
                     else if c = ''Four'' then 4 else 5)))
   \<and> ((\<forall>x\<in>set clases. x \<notin> set [''One'', ''Two'', ''Three'', ''Four'', ''Five'']) \<longrightarrow>
        parsear_valoracion (Some (Etiqueta n clases ats hs)) = Inr None)
   \<and> parsear_valoracion None = Inr None
   \<and> parsear_valoracion (Some (Texto s)) = Inr None"
proof (intro conjI impI)
  show "\<exists>v. parsear_valoracion e = Inr v"
    by (cases "cuerpo_valoracion e") (simp_all add: parsear_valoracion_def)
next
  assume "List.find (\<lambda>x. x \<in> set [''One'', ''Two'', ''Three'', ''Four'', ''Five'']) clases = Some c"
  then show "parsear_valoracion (Some (Etiqueta n clases ats hs)) =
          Inr (Some (if c = ''One'' then 1 else if c = ''Two'' then 2 else if c = ''Three'' then 3
                     else if c = ''Four'' then 4 else 5))"
    by (simp add: parsear_valoracion_def primera_valoracion_find)
next
  assume "\<forall>x\<in>set clases. x \<notin> set [''One'', ''Two'', ''Three'', ''Four'', ''Five'']"
  then have "List.find (\<lambda>x. x \<in> set [''One'', ''Two'', ''Three'', ''Four'', ''Five'']) clases = None"
    by (simp add: find_None_iff)
  then show "parsear_valoracion (Some (Etiqueta n clases ats hs)) = Inr None"
    by (simp add: parsear_valoracion_def primera_valoracion_find)
qed (simp_all add: parsear_valoracion_def)

theorem parsear_valoracion_primera_marca_witness:
  "parsear_valoracion (Some (Etiqueta ''p'' [''star-rating'', ''Three'', ''One''] [] [])) = Inr (Some 3)
   \<and> parsear_valoracion (Some (Etiqueta ''p'' [''star-rating'', ''three''] [] [])) = Inr None"
  using parsear_valoracion_primera_marca [of None "[''star-rating'', ''Three'', ''One'']" "''Three''" "''p''" "[]" "[]"]
    parsear_valoracion_primera_marca [of None "[''star-rating'', ''three'']" "[]" "''p''" "[]" "[]"]
  by simp

















section \<open>Properties of page extraction\<close>


















lemmas evaluar = parsear_precio_def float_de_str_def decimal_def exponente_def strip_def es_espacio_def
  strip_numerico_def es_espacio_numerico_def es_digito_def numero_def valor_digito_def minuscula_def
  parsear_stock_def int_de_str_def parsear_valoracion_def MAPA_VALORACIONES_def cuerpo_articulo_def leer_titulo_def leer_precio_def leer_valoracion_def leer_texto_stock_def buscar_def select_one_clase_def select_articulos_def
  select_one_li_next_a_def extraer_def obtener_soup_def scrapear_pagina_def URL_BASE_def URL_INICIAL_def obtener_todos_los_productos_def siguiente_url_def
  articulo_ejemplo_def pagina_ejemplo_def

















section \<open>Properties of the crawl\<close>

lemma bucle_fin: "bucle red n None acc = Some (Inr acc, n)"
  by (subst bucle.simps) simp

lemma bucle_vuelta:
  assumes "url \<noteq> []"
  shows "bucle red n (Some url) acc =
     (case siguiente_url (red (Suc n) url) of
        Inl e \<Rightarrow> Some (Inl e, n + 2)
      | Inr sig \<Rightarrow>
          bucle red (n + 2) sig (acc @ (case red n url of None \<Rightarrow> [] | Some d \<Rightarrow> extraer d)))"
  using assms
  by (subst bucle.simps) (simp add: scrapear_pagina_def obtener_soup_def split: option.splits sum.splits)

lemma siguiente_url_no_vacia: "siguiente_url s = Inr (Some u) \<Longrightarrow> u \<noteq> []"
  by (auto simp: siguiente_url_def URL_BASE_def split: option.splits sum.splits)

lemma siguiente_url_None:
  "siguiente_url s = Inr None \<longleftrightarrow> s = None \<or> (\<exists>d. s = Some d \<and> select_one_li_next_a d = None)"
  by (auto simp: siguiente_url_def split: option.splits sum.splits)

lemma map_upt_desde_0: "map f [0..<Suc k] = f 0 # map (\<lambda>i. f (Suc i)) [0..<k]"
proof -
  have "[0..<Suc k] = 0 # map Suc [0..<k]"
    by (simp only: upt_conv_Cons[of 0 "Suc k", OF zero_less_Suc] map_Suc_upt)
  then have "map f [0..<Suc k] = f 0 # map f (map Suc [0..<k])" by (simp only: list.map)
  then show ?thesis by (simp only: map_map o_def)
qed

text \<open>The records of the turns \<open>0..m\<close> of a run that starts with request \<open>n\<close>.\<close>

lemma bucle_cadena:
  assumes "length us = Suc m" and "us ! 0 \<noteq> []"
    and "\<forall>i<m. siguiente_url (red (n + 2 * i + 1) (us ! i)) = Inr (Some (us ! Suc i))"
    and "siguiente_url (red (n + 2 * m + 1) (us ! m)) = Inr None"
  shows "bucle red n (Some (us ! 0)) acc =
     Some (Inr (acc @ concat (map (\<lambda>i. case red (n + 2 * i) (us ! i) of None \<Rightarrow> [] | Some d \<Rightarrow> extraer d)
                               [0..<Suc m])), n + 2 * Suc m)"
  using assms
proof (induction m arbitrary: us n acc)
  case 0
  then show ?case by (simp add: bucle_vuelta bucle_fin)
next
  case (Suc m)
  from Suc.prems(1) obtain u us' where us: "us = u # us'" and len: "length us' = Suc m"
    by (cases us) auto
  from Suc.prems(3) have s0: "siguiente_url (red (Suc n) u) = Inr (Some (us' ! 0))"
    by (auto simp: us dest: spec[of _ 0])
  then have ne: "us' ! 0 \<noteq> []" by (rule siguiente_url_no_vacia)
  have ch: "\<forall>i<m. siguiente_url (red (n + 2 + 2 * i + 1) (us' ! i)) = Inr (Some (us' ! Suc i))"
  proof (intro allI impI)
    fix i assume "i < m"
    then have "Suc i < Suc m" by simp
    with Suc.prems(3) have "siguiente_url (red (n + 2 * Suc i + 1) (us ! Suc i)) = Inr (Some (us ! Suc (Suc i)))"
      by blast
    then show "siguiente_url (red (n + 2 + 2 * i + 1) (us' ! i)) = Inr (Some (us' ! Suc i))"
      by (simp add: us)
  qed
  from Suc.prems(4) have fin: "siguiente_url (red (n + 2 + 2 * m + 1) (us' ! m)) = Inr None"
    by (simp add: us)
  let ?f = "\<lambda>i. case red (n + 2 * i) (us ! i) of None \<Rightarrow> [] | Some d \<Rightarrow> extraer d"
  let ?g = "\<lambda>i. case red (n + 2 + 2 * i) (us' ! i) of None \<Rightarrow> [] | Some d \<Rightarrow> extraer d"
  have IH: "bucle red (n + 2) (Some (us' ! 0)) (acc @ ?f 0) =
     Some (Inr ((acc @ ?f 0) @ concat (map ?g [0..<Suc m])), n + 2 + 2 * Suc m)"
    using len ne ch fin by (rule Suc.IH)
  have "map ?f [0..<Suc (Suc m)] = ?f 0 # map (\<lambda>i. ?f (Suc i)) [0..<Suc m]"
    by (rule map_upt_desde_0)
  moreover have "(\<lambda>i. ?f (Suc i)) = ?g" by (auto simp: us fun_eq_iff)
  ultimately have "map ?f [0..<Suc (Suc m)] = ?f 0 # map ?g [0..<Suc m]" by (simp only:)
  then have c: "concat (map ?f [0..<Suc (Suc m)]) = ?f 0 @ concat (map ?g [0..<Suc m])"
    by (simp only: concat.simps)
  have ar: "n + 2 + 2 * Suc m = n + 2 * Suc (Suc m)" by simp
  have "bucle red n (Some (us ! 0)) acc = bucle red (n + 2) (Some (us' ! 0)) (acc @ ?f 0)"
    using Suc.prems(2) s0 by (simp add: bucle_vuelta us)
  also note IH
  finally show ?case by (simp only: c append_assoc ar)
qed

lemma URL_INICIAL_no_vacia: "URL_INICIAL \<noteq> []"
  by (simp add: URL_INICIAL_def URL_BASE_def)

lemma bucle_normal_cadena:
  assumes ret: "bucle red n c acc = Some res"
  shows "(c = None \<longrightarrow> res = (Inr acc, n))
     \<and> (\<forall>u r n'. c = Some u \<and> u \<noteq> [] \<and> res = (Inr r, n') \<longrightarrow>
          (\<exists>us m. n' = n + 2 * m + 2 \<and> length us = Suc m \<and> us ! 0 = u
             \<and> (\<forall>i<m. siguiente_url (red (n + 2 * i + 1) (us ! i)) = Inr (Some (us ! Suc i)))
             \<and> siguiente_url (red (n + 2 * m + 1) (us ! m)) = Inr None))"
proof (rule bucle.raw_induct [where P = "\<lambda>red n c acc res.
     (c = None \<longrightarrow> res = (Inr acc, n))
     \<and> (\<forall>u r n'. c = Some u \<and> u \<noteq> [] \<and> res = (Inr r, n') \<longrightarrow>
          (\<exists>us m. n' = n + 2 * m + 2 \<and> length us = Suc m \<and> us ! 0 = u
             \<and> (\<forall>i<m. siguiente_url (red (n + 2 * i + 1) (us ! i)) = Inr (Some (us ! Suc i)))
             \<and> siguiente_url (red (n + 2 * m + 1) (us ! m)) = Inr None))", OF _ ret])
  fix f :: "red \<Rightarrow> nat \<Rightarrow> string option \<Rightarrow> producto list \<Rightarrow> ((error + producto list) \<times> nat) option"
  fix red n c acc res
  assume IH: "\<And>red n c acc res. f red n c acc = Some res \<Longrightarrow>
     (c = None \<longrightarrow> res = (Inr acc, n))
     \<and> (\<forall>u r n'. c = Some u \<and> u \<noteq> [] \<and> res = (Inr r, n') \<longrightarrow>
          (\<exists>us m. n' = n + 2 * m + 2 \<and> length us = Suc m \<and> us ! 0 = u
             \<and> (\<forall>i<m. siguiente_url (red (n + 2 * i + 1) (us ! i)) = Inr (Some (us ! Suc i)))
             \<and> siguiente_url (red (n + 2 * m + 1) (us ! m)) = Inr None))"
  assume eq: "(case c of
        None \<Rightarrow> Some (Inr acc, n)
      | Some url \<Rightarrow>
          if url = [] then Some (Inr acc, n)
          else
            (case scrapear_pagina red n url of (productos_pagina, n1) \<Rightarrow>
            (case obtener_soup red n1 url of (soup, n2) \<Rightarrow>
            (case siguiente_url soup of
               Inl e \<Rightarrow> Some (Inl e, n2)
             | Inr siguiente \<Rightarrow> f red n2 siguiente (acc @ productos_pagina))))) = Some res"
  show "(c = None \<longrightarrow> res = (Inr acc, n))
     \<and> (\<forall>u r n'. c = Some u \<and> u \<noteq> [] \<and> res = (Inr r, n') \<longrightarrow>
          (\<exists>us m. n' = n + 2 * m + 2 \<and> length us = Suc m \<and> us ! 0 = u
             \<and> (\<forall>i<m. siguiente_url (red (n + 2 * i + 1) (us ! i)) = Inr (Some (us ! Suc i)))
             \<and> siguiente_url (red (n + 2 * m + 1) (us ! m)) = Inr None))"
  proof (intro conjI impI allI)
    assume "c = None"
    with eq show "res = (Inr acc, n)" by simp
  next
    fix u r n'
    assume h: "c = Some u \<and> u \<noteq> [] \<and> res = (Inr r, n')"
    let ?pp = "case red n u of None \<Rightarrow> [] | Some d \<Rightarrow> extraer d"
    from h eq have eq': "(case siguiente_url (red (Suc n) u) of
               Inl e \<Rightarrow> Some (Inl e, Suc (Suc n))
             | Inr siguiente \<Rightarrow> f red (Suc (Suc n)) siguiente (acc @ ?pp)) = Some (Inr r, n')"
      by (simp add: scrapear_pagina_def obtener_soup_def split: option.splits)
    then obtain sig where sig: "siguiente_url (red (Suc n) u) = Inr sig"
      and fs: "f red (n + 2) sig (acc @ ?pp) = Some (Inr r, n')"
      by (cases "siguiente_url (red (Suc n) u)") auto
    show "\<exists>us m. n' = n + 2 * m + 2 \<and> length us = Suc m \<and> us ! 0 = u
             \<and> (\<forall>i<m. siguiente_url (red (n + 2 * i + 1) (us ! i)) = Inr (Some (us ! Suc i)))
             \<and> siguiente_url (red (n + 2 * m + 1) (us ! m)) = Inr None"
    proof (cases sig)
      case None
      with IH[OF fs] have "n' = n + 2" by simp
      with sig None have "n' = n + 2 * 0 + 2 \<and> length [u] = Suc 0 \<and> [u] ! 0 = u
             \<and> (\<forall>i<0. siguiente_url (red (n + 2 * i + 1) ([u] ! i)) = Inr (Some ([u] ! Suc i)))
             \<and> siguiente_url (red (n + 2 * 0 + 1) ([u] ! 0)) = Inr None" by simp
      then show ?thesis by blast
    next
      case (Some u')
      with sig have ne: "u' \<noteq> []" by (auto dest: siguiente_url_no_vacia)
      with IH[OF fs] Some obtain us m where c:
        "n' = n + 2 + 2 * m + 2" "length us = Suc m" "us ! 0 = u'"
        "\<forall>i<m. siguiente_url (red (n + 2 + 2 * i + 1) (us ! i)) = Inr (Some (us ! Suc i))"
        "siguiente_url (red (n + 2 + 2 * m + 1) (us ! m)) = Inr None"
        by blast
      have ch: "\<forall>i<Suc m. siguiente_url (red (n + 2 * i + 1) ((u # us) ! i)) = Inr (Some ((u # us) ! Suc i))"
      proof (intro allI impI)
        fix i assume i: "i < Suc m"
        show "siguiente_url (red (n + 2 * i + 1) ((u # us) ! i)) = Inr (Some ((u # us) ! Suc i))"
        proof (cases i)
          case 0
          with sig Some c(3) show ?thesis by simp
        next
          case (Suc j)
          with i have "j < m" by simp
          with c(4) have "siguiente_url (red (n + 2 + 2 * j + 1) (us ! j)) = Inr (Some (us ! Suc j))"
            by blast
          with Suc show ?thesis by simp
        qed
      qed
      from c have "n' = n + 2 * Suc m + 2 \<and> length (u # us) = Suc (Suc m) \<and> (u # us) ! 0 = u
          \<and> siguiente_url (red (n + 2 * Suc m + 1) ((u # us) ! Suc m)) = Inr None" by simp
      with ch show ?thesis by blast
    qed
  qed
qed

lemma siguiente_url_pagina_uno: "siguiente_url (Some pagina_uno) = Inr (Some URL_PAGINA_DOS)"
  by (simp add: siguiente_url_def pagina_uno_def pagina_ejemplo_def articulo_ejemplo_def
      select_one_li_next_a_def URL_PAGINA_DOS_def)

lemma siguiente_url_pagina_dos: "siguiente_url (Some pagina_dos) = Inr None"
  by (simp add: siguiente_url_def pagina_dos_def pagina_ejemplo_def articulo_ejemplo_def
      select_one_li_next_a_def)

lemma URL_distintas: "URL_INICIAL \<noteq> URL_PAGINA_DOS"
  by (simp add: URL_INICIAL_def URL_PAGINA_DOS_def)

lemma siguiente_url_fallo: "siguiente_url None = Inr None"
  by (simp add: siguiente_url_def)

text \<open>
  Claim C1. Let the pages \<open>1..m\<close> answer both requests of their turn, the first with
  the documents \<open>ds\<close> and the second with a document that links to the next address,
  and let both requests for page \<open>m + 1\<close> fail. Then the crawl returns the records of
  the documents \<open>ds\<close>, joined in page order, after \<open>2 * m + 2\<close> requests: the failing
  page adds nothing and no request follows it.
\<close>

theorem fallo_en_pagina_k:
  "length us = Suc m \<and> length ds = m \<and> us ! 0 = URL_INICIAL
   \<and> (\<forall>i<m. red (2 * i) (us ! i) = Some (ds ! i)
           \<and> siguiente_url (red (2 * i + 1) (us ! i)) = Inr (Some (us ! Suc i)))
   \<and> red (2 * m) (us ! m) = None \<and> red (2 * m + 1) (us ! m) = None
   \<longrightarrow> obtener_todos_los_productos red = Some (Inr (concat (map extraer ds)), 2 * m + 2)"
proof
  assume h: "length us = Suc m \<and> length ds = m \<and> us ! 0 = URL_INICIAL
   \<and> (\<forall>i<m. red (2 * i) (us ! i) = Some (ds ! i)
           \<and> siguiente_url (red (2 * i + 1) (us ! i)) = Inr (Some (us ! Suc i)))
   \<and> red (2 * m) (us ! m) = None \<and> red (2 * m + 1) (us ! m) = None"
  let ?f = "\<lambda>i. case red (0 + 2 * i) (us ! i) of None \<Rightarrow> [] | Some d \<Rightarrow> extraer d"
  from h have 1: "length us = Suc m" and 2: "us ! 0 \<noteq> []"
    by (simp_all add: URL_INICIAL_no_vacia)
  from h have 3: "\<forall>i<m. siguiente_url (red (0 + 2 * i + 1) (us ! i)) = Inr (Some (us ! Suc i))"
    by simp
  from h have 4: "siguiente_url (red (0 + 2 * m + 1) (us ! m)) = Inr None"
    by (simp add: siguiente_url_fallo)
  have b: "bucle red 0 (Some (us ! 0)) [] =
      Some (Inr ([] @ concat (map ?f [0..<Suc m])), 0 + 2 * Suc m)"
    using 1 2 3 4 by (rule bucle_cadena)
  have "map ?f [0..<m] = map extraer ds"
    using h by (intro nth_equalityI) simp_all
  moreover from h have "?f m = []" by simp
  ultimately have "concat (map ?f [0..<Suc m]) = concat (map extraer ds)" by simp
  with b h show "obtener_todos_los_productos red = Some (Inr (concat (map extraer ds)), 2 * m + 2)"
    by (simp add: obtener_todos_los_productos_def)
qed

theorem fallo_en_pagina_k_witness:
  "obtener_todos_los_productos (\<lambda>n url. if url = URL_INICIAL then Some pagina_uno else None)
     = Some (Inr (concat (map extraer [pagina_uno])), 4)"
  using fallo_en_pagina_k [of "[URL_INICIAL, URL_PAGINA_DOS]" 1 "[pagina_uno]"
      "\<lambda>n url. if url = URL_INICIAL then Some pagina_uno else None"]
  by (simp add: siguiente_url_pagina_uno URL_distintas[symmetric])

text \<open>
  Claim C6. When the addresses reached from the start by following the next links end,
  after \<open>m\<close> links, at a page whose link lookup finds nothing (the request fails, or
  the document has no next link), the crawl returns, after \<open>2 * m + 2\<close> requests.
  Conversely, whenever the crawl returns its records it has followed such a finite
  chain of links and stopped at a lookup that found nothing.
\<close>

theorem rastreo_termina:
  "(length us = Suc m \<and> us ! 0 = URL_INICIAL
      \<and> (\<forall>i<m. siguiente_url (red (2 * i + 1) (us ! i)) = Inr (Some (us ! Suc i)))
      \<and> (red (2 * m + 1) (us ! m) = None
           \<or> (\<exists>d. red (2 * m + 1) (us ! m) = Some d \<and> select_one_li_next_a d = None))
      \<longrightarrow> (\<exists>r. obtener_todos_los_productos red = Some (Inr r, 2 * m + 2)))
   \<and> (obtener_todos_los_productos red = Some (Inr r, n') \<longrightarrow>
        (\<exists>us m. n' = 2 * m + 2 \<and> length us = Suc m \<and> us ! 0 = URL_INICIAL
           \<and> (\<forall>i<m. siguiente_url (red (2 * i + 1) (us ! i)) = Inr (Some (us ! Suc i)))
           \<and> (red (2 * m + 1) (us ! m) = None
                \<or> (\<exists>d. red (2 * m + 1) (us ! m) = Some d \<and> select_one_li_next_a d = None))))"
proof (intro conjI impI)
  assume h: "length us = Suc m \<and> us ! 0 = URL_INICIAL
      \<and> (\<forall>i<m. siguiente_url (red (2 * i + 1) (us ! i)) = Inr (Some (us ! Suc i)))
      \<and> (red (2 * m + 1) (us ! m) = None
           \<or> (\<exists>d. red (2 * m + 1) (us ! m) = Some d \<and> select_one_li_next_a d = None))"
  let ?f = "\<lambda>i. case red (0 + 2 * i) (us ! i) of None \<Rightarrow> [] | Some d \<Rightarrow> extraer d"
  from h have 1: "length us = Suc m" and 2: "us ! 0 \<noteq> []"
    by (simp_all add: URL_INICIAL_no_vacia)
  from h have 3: "\<forall>i<m. siguiente_url (red (0 + 2 * i + 1) (us ! i)) = Inr (Some (us ! Suc i))"
    by simp
  from h have 4: "siguiente_url (red (0 + 2 * m + 1) (us ! m)) = Inr None"
    by (simp add: siguiente_url_None)
  have "bucle red 0 (Some (us ! 0)) [] =
      Some (Inr ([] @ concat (map ?f [0..<Suc m])), 0 + 2 * Suc m)"
    using 1 2 3 4 by (rule bucle_cadena)
  with h show "\<exists>r. obtener_todos_los_productos red = Some (Inr r, 2 * m + 2)"
    by (simp add: obtener_todos_los_productos_def)
next
  assume "obtener_todos_los_productos red = Some (Inr r, n')"
  then have "bucle red 0 (Some URL_INICIAL) [] = Some (Inr r, n')"
    by (simp add: obtener_todos_los_productos_def)
  from bucle_normal_cadena[OF this] URL_INICIAL_no_vacia
  obtain us m where c: "n' = 0 + 2 * m + 2" "length us = Suc m" "us ! 0 = URL_INICIAL"
    "\<forall>i<m. siguiente_url (red (0 + 2 * i + 1) (us ! i)) = Inr (Some (us ! Suc i))"
    "siguiente_url (red (0 + 2 * m + 1) (us ! m)) = Inr None"
    by blast
  then have "n' = 2 * m + 2 \<and> length us = Suc m \<and> us ! 0 = URL_INICIAL
           \<and> (\<forall>i<m. siguiente_url (red (2 * i + 1) (us ! i)) = Inr (Some (us ! Suc i)))
           \<and> (red (2 * m + 1) (us ! m) = None
                \<or> (\<exists>d. red (2 * m + 1) (us ! m) = Some d \<and> select_one_li_next_a d = None))"
    by (simp add: siguiente_url_None)
  then show "\<exists>us m. n' = 2 * m + 2 \<and> length us = Suc m \<and> us ! 0 = URL_INICIAL
           \<and> (\<forall>i<m. siguiente_url (red (2 * i + 1) (us ! i)) = Inr (Some (us ! Suc i)))
           \<and> (red (2 * m + 1) (us ! m) = None
                \<or> (\<exists>d. red (2 * m + 1) (us ! m) = Some d \<and> select_one_li_next_a d = None))"
    by blast
qed

theorem rastreo_termina_witness:
  "(\<exists>r. obtener_todos_los_productos (\<lambda>n. sitio_ejemplo) = Some (Inr r, 4))
   \<and> (\<exists>us m. (4::nat) = 2 * m + 2 \<and> length us = Suc m \<and> us ! 0 = URL_INICIAL
         \<and> (sitio_ejemplo (us ! m) = None
              \<or> (\<exists>d. sitio_ejemplo (us ! m) = Some d \<and> select_one_li_next_a d = None)))"
proof -
  have "sitio_ejemplo URL_INICIAL = Some pagina_uno" "sitio_ejemplo URL_PAGINA_DOS = Some pagina_dos"
    by (simp_all add: sitio_ejemplo_def URL_distintas[symmetric])
  moreover have "select_one_li_next_a pagina_dos = None"
    using siguiente_url_pagina_dos by (simp add: siguiente_url_None)
  ultimately have "\<exists>r. obtener_todos_los_productos (\<lambda>n. sitio_ejemplo) = Some (Inr r, 4)"
    using rastreo_termina [of "[URL_INICIAL, URL_PAGINA_DOS]" 1 "\<lambda>n. sitio_ejemplo" "[]" 0]
    by (simp add: siguiente_url_pagina_uno)
  then obtain r where r: "obtener_todos_los_productos (\<lambda>n. sitio_ejemplo) = Some (Inr r, 4)" ..
  with rastreo_termina [of "[]" 0 "\<lambda>n. sitio_ejemplo" r 4]
  have "\<exists>us m. (4::nat) = 2 * m + 2 \<and> length us = Suc m \<and> us ! 0 = URL_INICIAL
         \<and> (sitio_ejemplo (us ! m) = None
              \<or> (\<exists>d. sitio_ejemplo (us ! m) = Some d \<and> select_one_li_next_a d = None))"
    by blast
  with r show ?thesis by blast
qed

text \<open>
  The precondition is needed: on a catalogue whose page links to the start address
  again, every turn finds a next link and the crawl never returns.
\<close>

lemma siguiente_url_ciclo:
  "siguiente_url (Some (pagina_ejemplo [] (Some ''page-1.html''))) = Inr (Some URL_INICIAL)"
  by (simp add: siguiente_url_def pagina_ejemplo_def select_one_li_next_a_def URL_INICIAL_def)

lemma bucle_ciclo:
  assumes ret: "bucle red n c acc = Some res"
  shows "\<not> (red = (\<lambda>n url. Some (pagina_ejemplo [] (Some ''page-1.html''))) \<and> c = Some URL_INICIAL)"
proof (rule bucle.raw_induct [where P = "\<lambda>red n c acc res.
     \<not> (red = (\<lambda>n url. Some (pagina_ejemplo [] (Some ''page-1.html''))) \<and> c = Some URL_INICIAL)",
     OF _ ret])
  fix f :: "red \<Rightarrow> nat \<Rightarrow> string option \<Rightarrow> producto list \<Rightarrow> ((error + producto list) \<times> nat) option"
  fix red n c acc res
  assume IH: "\<And>red n c acc res. f red n c acc = Some res \<Longrightarrow>
     \<not> (red = (\<lambda>n url. Some (pagina_ejemplo [] (Some ''page-1.html''))) \<and> c = Some URL_INICIAL)"
  assume eq: "(case c of
        None \<Rightarrow> Some (Inr acc, n)
      | Some url \<Rightarrow>
          if url = [] then Some (Inr acc, n)
          else
            (case scrapear_pagina red n url of (productos_pagina, n1) \<Rightarrow>
            (case obtener_soup red n1 url of (soup, n2) \<Rightarrow>
            (case siguiente_url soup of
               Inl e \<Rightarrow> Some (Inl e, n2)
             | Inr siguiente \<Rightarrow> f red n2 siguiente (acc @ productos_pagina))))) = Some res"
  show "\<not> (red = (\<lambda>n url. Some (pagina_ejemplo [] (Some ''page-1.html''))) \<and> c = Some URL_INICIAL)"
  proof
    assume h: "red = (\<lambda>n url. Some (pagina_ejemplo [] (Some ''page-1.html''))) \<and> c = Some URL_INICIAL"
    with eq have "\<exists>acc' n'. f red n' (Some URL_INICIAL) acc' = Some res"
      by (auto simp: scrapear_pagina_def obtener_soup_def siguiente_url_ciclo URL_INICIAL_no_vacia)
    then obtain acc' n' where "f red n' (Some URL_INICIAL) acc' = Some res" by blast
    from IH[OF this] h show False by simp
  qed
qed

lemma rastreo_sin_fin:
  "obtener_todos_los_productos (\<lambda>n url. Some (pagina_ejemplo [] (Some ''page-1.html''))) = None"
proof (rule ccontr)
  assume "obtener_todos_los_productos (\<lambda>n url. Some (pagina_ejemplo [] (Some ''page-1.html''))) \<noteq> None"
  then obtain res where
    "bucle (\<lambda>n url. Some (pagina_ejemplo [] (Some ''page-1.html''))) 0 (Some URL_INICIAL) [] = Some res"
    by (auto simp: obtener_todos_los_productos_def)
  from bucle_ciclo[OF this] show False by simp
qed

lemma referencia_fin: "conductor_referencia sitio k None acc = Some (Inr acc, k)"
  by (subst conductor_referencia.simps) simp

lemma referencia_vuelta:
  assumes "url \<noteq> []"
  shows "conductor_referencia sitio k (Some url) acc =
     (case siguiente_url (sitio url) of
        Inl e \<Rightarrow> Some (Inl e, Suc k)
      | Inr sig \<Rightarrow>
          conductor_referencia sitio (Suc k) sig
            (acc @ (case sitio url of None \<Rightarrow> [] | Some d \<Rightarrow> extraer d)))"
  using assms by (subst conductor_referencia.simps) simp

lemma referencia_vacia: "conductor_referencia sitio k (Some []) acc = Some (Inr acc, k)"
  by (subst conductor_referencia.simps) simp

lemma bucle_vacia: "bucle red n (Some []) acc = Some (Inr acc, n)"
  by (subst bucle.simps) simp

lemma bucle_a_referencia:
  assumes ret: "bucle red n c acc = Some res"
  shows "\<forall>sitio k. red = (\<lambda>n. sitio) \<and> n = 2 * k \<longrightarrow>
           (\<exists>k'. res = (fst res, 2 * k') \<and> conductor_referencia sitio k c acc = Some (fst res, k'))"
proof (rule bucle.raw_induct [where P = "\<lambda>red n c acc res.
     \<forall>sitio k. red = (\<lambda>n. sitio) \<and> n = 2 * k \<longrightarrow>
           (\<exists>k'. res = (fst res, 2 * k') \<and> conductor_referencia sitio k c acc = Some (fst res, k'))",
     OF _ ret])
  fix f :: "red \<Rightarrow> nat \<Rightarrow> string option \<Rightarrow> producto list \<Rightarrow> ((error + producto list) \<times> nat) option"
  fix red n c acc res
  assume IH: "\<And>red n c acc res. f red n c acc = Some res \<Longrightarrow>
     \<forall>sitio k. red = (\<lambda>n. sitio) \<and> n = 2 * k \<longrightarrow>
           (\<exists>k'. res = (fst res, 2 * k') \<and> conductor_referencia sitio k c acc = Some (fst res, k'))"
  assume eq: "(case c of
        None \<Rightarrow> Some (Inr acc, n)
      | Some url \<Rightarrow>
          if url = [] then Some (Inr acc, n)
          else
            (case scrapear_pagina red n url of (productos_pagina, n1) \<Rightarrow>
            (case obtener_soup red n1 url of (soup, n2) \<Rightarrow>
            (case siguiente_url soup of
               Inl e \<Rightarrow> Some (Inl e, n2)
             | Inr siguiente \<Rightarrow> f red n2 siguiente (acc @ productos_pagina))))) = Some res"
  show "\<forall>sitio k. red = (\<lambda>n. sitio) \<and> n = 2 * k \<longrightarrow>
           (\<exists>k'. res = (fst res, 2 * k') \<and> conductor_referencia sitio k c acc = Some (fst res, k'))"
  proof (intro allI impI)
    fix sitio k
    assume h: "red = (\<lambda>n. sitio) \<and> n = 2 * k"
    show "\<exists>k'. res = (fst res, 2 * k') \<and> conductor_referencia sitio k c acc = Some (fst res, k')"
    proof (cases c)
      case None
      with eq h show ?thesis by (auto simp: referencia_fin)
    next
      case (Some u)
      show ?thesis
      proof (cases "u = []")
        case True
        with eq h Some show ?thesis by (auto simp: referencia_vacia)
      next
        case False
        let ?pp = "case sitio u of None \<Rightarrow> [] | Some d \<Rightarrow> extraer d"
        from eq h Some False have eq': "(case siguiente_url (sitio u) of
               Inl e \<Rightarrow> Some (Inl e, Suc (Suc (2 * k)))
             | Inr siguiente \<Rightarrow> f red (Suc (Suc (2 * k))) siguiente (acc @ ?pp)) = Some res"
          by (simp add: scrapear_pagina_def obtener_soup_def split: option.splits)
        show ?thesis
        proof (cases "siguiente_url (sitio u)")
          case (Inl e)
          with eq' h have "res = (Inl e, 2 * Suc k)" by auto
          with Inl False Some show ?thesis by (auto simp: referencia_vuelta)
        next
          case (Inr sig)
          with eq' have "f red (Suc (Suc (2 * k))) sig (acc @ ?pp) = Some res" by simp
          from IH[OF this] h have "\<exists>k'. res = (fst res, 2 * k')
              \<and> conductor_referencia sitio (Suc k) sig (acc @ ?pp) = Some (fst res, k')"
            by simp
          then obtain k' where
            "res = (fst res, 2 * k')"
            "conductor_referencia sitio (Suc k) sig (acc @ ?pp) = Some (fst res, k')"
            by auto
          with Inr False Some show ?thesis by (auto simp: referencia_vuelta)
        qed
      qed
    qed
  qed
qed

lemma referencia_a_bucle:
  assumes ret: "conductor_referencia sitio k c acc = Some res"
  shows "bucle (\<lambda>n. sitio) (2 * k) c acc = Some (fst res, 2 * snd res)"
proof (rule conductor_referencia.raw_induct [where P = "\<lambda>sitio k c acc res.
     bucle (\<lambda>n. sitio) (2 * k) c acc = Some (fst res, 2 * snd res)", OF _ ret])
  fix g :: "(string \<Rightarrow> nodo option) \<Rightarrow> nat \<Rightarrow> string option \<Rightarrow> producto list
     \<Rightarrow> ((error + producto list) \<times> nat) option"
  fix sitio k c acc res
  assume IH: "\<And>sitio k c acc res. g sitio k c acc = Some res \<Longrightarrow>
     bucle (\<lambda>n. sitio) (2 * k) c acc = Some (fst res, 2 * snd res)"
  assume eq: "(case c of
        None \<Rightarrow> Some (Inr acc, k)
      | Some url \<Rightarrow>
          if url = [] then Some (Inr acc, k)
          else
            (case siguiente_url (sitio url) of
               Inl e \<Rightarrow> Some (Inl e, Suc k)
             | Inr siguiente \<Rightarrow>
                 g sitio (Suc k) siguiente
                   (acc @ (case sitio url of None \<Rightarrow> [] | Some d \<Rightarrow> extraer d)))) = Some res"
  show "bucle (\<lambda>n. sitio) (2 * k) c acc = Some (fst res, 2 * snd res)"
  proof (cases c)
    case None
    with eq show ?thesis by (auto simp: bucle_fin)
  next
    case (Some u)
    show ?thesis
    proof (cases "u = []")
      case True
      with eq Some show ?thesis by (auto simp: bucle_vacia)
    next
      case False
      let ?pp = "case sitio u of None \<Rightarrow> [] | Some d \<Rightarrow> extraer d"
      show ?thesis
      proof (cases "siguiente_url (sitio u)")
        case (Inl e)
        with eq Some False have "res = (Inl e, Suc k)" by simp
        with Inl False Some show ?thesis by (simp add: bucle_vuelta)
      next
        case (Inr sig)
        with eq Some False have "g sitio (Suc k) sig (acc @ ?pp) = Some res" by simp
        from IH[OF this] have "bucle (\<lambda>n. sitio) (2 * Suc k) sig (acc @ ?pp) = Some (fst res, 2 * snd res)" .
        with Inr False Some show ?thesis by (simp add: bucle_vuelta)
      qed
    qed
  qed
qed

lemma bucle_referencia:
  "bucle (\<lambda>n. sitio) (2 * k) c acc =
     map_option (\<lambda>res. (fst res, 2 * snd res)) (conductor_referencia sitio k c acc)"
proof (cases "conductor_referencia sitio k c acc")
  case None
  have "bucle (\<lambda>n. sitio) (2 * k) c acc = None"
  proof (rule ccontr)
    assume "bucle (\<lambda>n. sitio) (2 * k) c acc \<noteq> None"
    then obtain res where "bucle (\<lambda>n. sitio) (2 * k) c acc = Some res" by auto
    from bucle_a_referencia[OF this] None show False by auto
  qed
  with None show ?thesis by simp
next
  case (Some res)
  then show ?thesis by (simp add: referencia_a_bucle)
qed

lemma extraer_pagina_uno:
  "extraer pagina_uno =
     [\<lparr>titulo = ''A'', precio = Finito False 1000 (- 2), valoracion = Some 3,
        cantidad_stock = Some 5, texto_stock = ''In stock (5 available)''\<rparr>,
      \<lparr>titulo = ''B'', precio = Finito False 500 (- 2), valoracion = None,
        cantidad_stock = None, texto_stock = ''Out of stock''\<rparr>]"
  by (simp add: pagina_uno_def evaluar)

lemma extraer_pagina_dos:
  "extraer pagina_dos =
     [\<lparr>titulo = ''C'', precio = Finito False 150 (- 2), valoracion = Some 5,
        cantidad_stock = Some 1, texto_stock = ''In stock (1 available)''\<rparr>]"
  by (simp add: pagina_dos_def evaluar)

lemma sitio_ejemplo_simps:
  "sitio_ejemplo URL_INICIAL = Some pagina_uno" "sitio_ejemplo URL_PAGINA_DOS = Some pagina_dos"
  by (simp_all add: sitio_ejemplo_def URL_distintas[symmetric])

lemma URL_PAGINA_DOS_no_vacia: "URL_PAGINA_DOS \<noteq> []"
  by (simp add: URL_PAGINA_DOS_def URL_BASE_def)

lemma rastreo_intermitente:
  "obtener_todos_los_productos (\<lambda>n url. if n = 0 then None else sitio_ejemplo url)
     = Some (Inr [\<lparr>titulo = ''C'', precio = Finito False 150 (- 2), valoracion = Some 5,
                   cantidad_stock = Some 1, texto_stock = ''In stock (1 available)''\<rparr>], 4)"
  by (simp add: obtener_todos_los_productos_def bucle_vuelta bucle_fin URL_INICIAL_no_vacia
      URL_PAGINA_DOS_no_vacia sitio_ejemplo_simps siguiente_url_pagina_uno siguiente_url_pagina_dos
      extraer_pagina_dos)

text \<open>
  Claim C7. One turn of the loop makes two requests for the current address: the
  records come from the first answer and the next link from the second. For a site
  that answers each address in one way, the crawl returns what the driver that asks
  once per page returns, with twice the requests. Without that, a failed first request
  does not end the crawl: here request 0 fails, the link is read from request 1, and
  the crawl goes on to the second page and returns its record alone.
\<close>

theorem dos_peticiones_por_pagina:
  "(url \<noteq> [] \<longrightarrow>
      bucle red n (Some url) acc =
        (case siguiente_url (red (Suc n) url) of
           Inl e \<Rightarrow> Some (Inl e, n + 2)
         | Inr sig \<Rightarrow>
             bucle red (n + 2) sig (acc @ (case red n url of None \<Rightarrow> [] | Some d \<Rightarrow> extraer d))))
   \<and> ((\<forall>n. red n = sitio) \<longrightarrow>
        obtener_todos_los_productos red =
          map_option (\<lambda>res. (fst res, 2 * snd res)) (conductor_referencia sitio 0 (Some URL_INICIAL) []))
   \<and> obtener_todos_los_productos (\<lambda>n url. if n = 0 then None else sitio_ejemplo url)
       = Some (Inr [\<lparr>titulo = ''C'', precio = Finito False 150 (- 2), valoracion = Some 5,
                     cantidad_stock = Some 1, texto_stock = ''In stock (1 available)''\<rparr>], 4)"
proof (intro conjI impI)
  assume "url \<noteq> []"
  then show "bucle red n (Some url) acc =
        (case siguiente_url (red (Suc n) url) of
           Inl e \<Rightarrow> Some (Inl e, n + 2)
         | Inr sig \<Rightarrow>
             bucle red (n + 2) sig (acc @ (case red n url of None \<Rightarrow> [] | Some d \<Rightarrow> extraer d)))"
    by (rule bucle_vuelta)
next
  assume "\<forall>n. red n = sitio"
  then have "red = (\<lambda>n. sitio)" by (simp add: fun_eq_iff)
  then show "obtener_todos_los_productos red =
          map_option (\<lambda>res. (fst res, 2 * snd res)) (conductor_referencia sitio 0 (Some URL_INICIAL) [])"
    using bucle_referencia [of sitio 0 "Some URL_INICIAL" "[]"]
    by (simp add: obtener_todos_los_productos_def)
next
  show "obtener_todos_los_productos (\<lambda>n url. if n = 0 then None else sitio_ejemplo url)
       = Some (Inr [\<lparr>titulo = ''C'', precio = Finito False 150 (- 2), valoracion = Some 5,
                     cantidad_stock = Some 1, texto_stock = ''In stock (1 available)''\<rparr>], 4)"
    by (rule rastreo_intermitente)
qed

lemma referencia_sitio_ejemplo:
  "conductor_referencia sitio_ejemplo 0 (Some URL_INICIAL) []
     = Some (Inr (extraer pagina_uno @ extraer pagina_dos), 2)"
  by (simp add: referencia_vuelta referencia_fin URL_INICIAL_no_vacia URL_PAGINA_DOS_no_vacia
      sitio_ejemplo_simps siguiente_url_pagina_uno siguiente_url_pagina_dos)

theorem dos_peticiones_por_pagina_witness:
  "obtener_todos_los_productos (\<lambda>n. sitio_ejemplo)
     = Some (Inr (extraer pagina_uno @ extraer pagina_dos), 4)
   \<and> bucle (\<lambda>n. sitio_ejemplo) 2 (Some URL_PAGINA_DOS) (extraer pagina_uno)
     = Some (Inr (extraer pagina_uno @ extraer pagina_dos), 4)"
proof -
  have "obtener_todos_los_productos (\<lambda>n. sitio_ejemplo)
     = Some (Inr (extraer pagina_uno @ extraer pagina_dos), 4)"
    using dos_peticiones_por_pagina [of "[]" "\<lambda>n. sitio_ejemplo" 0 "[]" sitio_ejemplo]
    by (simp add: referencia_sitio_ejemplo)
  moreover have "bucle (\<lambda>n. sitio_ejemplo) 2 (Some URL_PAGINA_DOS) (extraer pagina_uno)
     = Some (Inr (extraer pagina_uno @ extraer pagina_dos), 4)"
    using dos_peticiones_por_pagina [of URL_PAGINA_DOS "\<lambda>n. sitio_ejemplo" 2 "extraer pagina_uno" sitio_ejemplo]
    by (simp add: URL_PAGINA_DOS_no_vacia sitio_ejemplo_simps siguiente_url_pagina_dos bucle_fin)
  ultimately show ?thesis by simp
qed

text \<open>
  Claim C2 fails on the code. When every request fails the crawl returns the empty
  list, and the entry point ends with \<open>IndexError\<close> in \<open>guardar_csv\<close>: the CSV file
  is left empty, and neither the JSON file nor the database is written. The two other
  exports accept the empty list.
\<close>

theorem principal_sin_productos:
  "principal (\<lambda>n url. None) sis = Some (Some IndexError, sis\<lparr>productos_csv := Some []\<rparr>)
   \<and> guardar_json [] sis = (None, sis\<lparr>productos_json := Some []\<rparr>)
   \<and> guardar_sqlite [] sis =
       (None, sis\<lparr>productos_db := Some (case productos_db sis of None \<Rightarrow> [] | Some filas \<Rightarrow> filas)\<rparr>)"
  by (simp add: principal_def obtener_todos_los_productos_def bucle_vuelta bucle_fin
      URL_INICIAL_no_vacia siguiente_url_fallo guardar_csv_def guardar_json_def guardar_sqlite_def)

lemma principal_con_productos:
  assumes "obtener_todos_los_productos red = Some (Inr productos, n)" and "productos \<noteq> []"
    and "list_all (\<lambda>p. cabe_en_int64 (valoracion p) \<and> cabe_en_int64 (cantidad_stock p)) productos"
  shows "principal red sis =
     Some (None, sis\<lparr>productos_csv :=
                       Some (Cabecera [''titulo'', ''precio'', ''valoracion'', ''cantidad_stock'', ''texto_stock'']
                             # map Fila productos),
                     productos_json := Some productos,
                     productos_db := Some ((case productos_db sis of None \<Rightarrow> [] | Some filas \<Rightarrow> filas) @ productos)\<rparr>)"
  using assms
  by (cases productos)
     (simp_all add: principal_def guardar_csv_def guardar_json_def guardar_sqlite_def)

text \<open>
  The catalogue of two pages, from end to end: three records in page order, four
  requests, and the three outputs written.
\<close>

lemma rastreo_sitio_ejemplo:
  "obtener_todos_los_productos (\<lambda>n. sitio_ejemplo)
     = Some (Inr [\<lparr>titulo = ''A'', precio = Finito False 1000 (- 2), valoracion = Some 3,
                   cantidad_stock = Some 5, texto_stock = ''In stock (5 available)''\<rparr>,
                 \<lparr>titulo = ''B'', precio = Finito False 500 (- 2), valoracion = None,
                   cantidad_stock = None, texto_stock = ''Out of stock''\<rparr>,
                 \<lparr>titulo = ''C'', precio = Finito False 150 (- 2), valoracion = Some 5,
                   cantidad_stock = Some 1, texto_stock = ''In stock (1 available)''\<rparr>], 4)"
  by (simp add: obtener_todos_los_productos_def bucle_vuelta bucle_fin URL_INICIAL_no_vacia
      URL_PAGINA_DOS_no_vacia sitio_ejemplo_simps siguiente_url_pagina_uno siguiente_url_pagina_dos
      extraer_pagina_uno extraer_pagina_dos)

lemma principal_sitio_ejemplo:
  "principal (\<lambda>n. sitio_ejemplo)
      \<lparr>productos_csv = None, productos_json = None, productos_db = None\<rparr>
     = Some (None,
         \<lparr>productos_csv =
            Some (Cabecera [''titulo'', ''precio'', ''valoracion'', ''cantidad_stock'', ''texto_stock'']
                  # map Fila (extraer pagina_uno @ extraer pagina_dos)),
          productos_json = Some (extraer pagina_uno @ extraer pagina_dos),
          productos_db = Some (extraer pagina_uno @ extraer pagina_dos)\<rparr>)"
proof -
  have r: "obtener_todos_los_productos (\<lambda>n. sitio_ejemplo)
      = Some (Inr (extraer pagina_uno @ extraer pagina_dos), 4)"
    by (simp add: rastreo_sitio_ejemplo extraer_pagina_uno extraer_pagina_dos)
  have "extraer pagina_uno @ extraer pagina_dos \<noteq> []"
    by (simp add: extraer_pagina_dos)
  moreover have "list_all (\<lambda>p. cabe_en_int64 (valoracion p) \<and> cabe_en_int64 (cantidad_stock p))
      (extraer pagina_uno @ extraer pagina_dos)"
    by (simp add: extraer_pagina_uno extraer_pagina_dos cabe_en_int64_def)
  ultimately show ?thesis
    using principal_con_productos [OF r] by simp
qed

end
